theory Spec2Isabelle
  imports Main
begin

section \<open>Password strength (class PasswordStrength of archinstall/lib/models/users.py)\<close>

text \<open>
  The enum \<open>PasswordStrength\<close>, with its members in the order of declaration.
\<close>

datatype PasswordStrength = VERY_WEAK | WEAK | MODERATE | STRONG

text \<open>\<open>PasswordStrength.color\<close>.\<close>

fun color :: "PasswordStrength \<Rightarrow> string" where
  "color VERY_WEAK = ''red''"
| "color WEAK = ''red''"
| "color MODERATE = ''yellow''"
| "color STRONG = ''green''"

text \<open>
  A Python \<open>str\<close> is a sequence of Unicode code points; \<open>len\<close> counts code points and
  iteration yields them one by one. A password is therefore a list of code points.

  \<open>str.isdigit\<close>, \<open>str.isupper\<close>, \<open>str.islower\<close> and \<open>str.isalnum\<close> are built into
  Python: on a one-character string they look the code point up in the interpreter's
  Unicode tables, which are not part of this repository. The tables are a parameter of
  the model, so every theorem below holds for whatever the interpreter's tables are.
\<close>

type_synonym codepoint = nat

type_synonym pystr = "codepoint list"

record chartab =
  isdigit :: "codepoint \<Rightarrow> bool"
  isupper :: "codepoint \<Rightarrow> bool"
  islower :: "codepoint \<Rightarrow> bool"
  isalnum :: "codepoint \<Rightarrow> bool"

text \<open>
  The values the four tests have on ASCII code points (below 128), where they are
  \<open>0-9\<close>, \<open>A-Z\<close>, \<open>a-z\<close> and their union. Used to evaluate concrete ASCII passwords;
  above 127 this instance answers False and is not the interpreter's table.
\<close>

definition ascii_tab :: chartab where
  "ascii_tab =
     \<lparr> isdigit = (\<lambda>c. 48 \<le> c \<and> c \<le> 57),
       isupper = (\<lambda>c. 65 \<le> c \<and> c \<le> 90),
       islower = (\<lambda>c. 97 \<le> c \<and> c \<le> 122),
       isalnum = (\<lambda>c. (48 \<le> c \<and> c \<le> 57) \<or> (65 \<le> c \<and> c \<le> 90) \<or> (97 \<le> c \<and> c \<le> 122)) \<rparr>"

text \<open>
  The same values, and those of the circled Latin letters: the interpreter's \<open>isupper\<close>
  holds of U+24B6 to U+24CF, its \<open>islower\<close> of U+24D0 to U+24E9, and its \<open>isdigit\<close>
  and \<open>isalnum\<close> of none of them (they are symbols of category So, not letters).
\<close>

definition circled_tab :: chartab where
  "circled_tab =
     \<lparr> isdigit = (\<lambda>c. 48 \<le> c \<and> c \<le> 57),
       isupper = (\<lambda>c. (65 \<le> c \<and> c \<le> 90) \<or> (9398 \<le> c \<and> c \<le> 9423)),
       islower = (\<lambda>c. (97 \<le> c \<and> c \<le> 122) \<or> (9424 \<le> c \<and> c \<le> 9449)),
       isalnum = (\<lambda>c. (48 \<le> c \<and> c \<le> 57) \<or> (65 \<le> c \<and> c \<le> 90) \<or> (97 \<le> c \<and> c \<le> 122)) \<rparr>"

text \<open>An ASCII literal as a Python string.\<close>

definition ascii :: "string \<Rightarrow> pystr" where
  "ascii s = map of_char s"

text \<open>
  Python's \<open>any\<close> over a generator: it consumes the values from the left and stops at the
  first true one.
\<close>

fun any_py :: "bool list \<Rightarrow> bool" where
  "any_py [] = False"
| "any_py (x # xs) = (if x then True else any_py xs)"

text \<open>
  The \<open>match length\<close> statements of \<open>_check_password_strength\<close>, one per branch of the
  \<open>if\<close>/\<open>elif\<close> chain. Each \<open>case num if guard\<close> is tried in order; the result is the
  value returned by the first case whose guard holds, and \<open>None\<close> when no guard holds,
  in which case Python leaves the \<open>match\<close> without returning.
\<close>

definition match_all_four :: "int \<Rightarrow> PasswordStrength option" where
  "match_all_four num =
     (if 13 \<le> num then Some STRONG
      else if 11 \<le> num \<and> num \<le> 12 then Some MODERATE
      else if 7 \<le> num \<and> num \<le> 10 then Some WEAK
      else if num \<le> 6 then Some VERY_WEAK
      else None)"

definition match_digit_upper_lower :: "int \<Rightarrow> PasswordStrength option" where
  "match_digit_upper_lower num =
     (if 14 \<le> num then Some STRONG
      else if 11 \<le> num \<and> num \<le> 13 then Some MODERATE
      else if 7 \<le> num \<and> num \<le> 10 then Some WEAK
      else if num \<le> 6 then Some VERY_WEAK
      else None)"

definition match_upper_lower :: "int \<Rightarrow> PasswordStrength option" where
  "match_upper_lower num =
     (if 15 \<le> num then Some STRONG
      else if 12 \<le> num \<and> num \<le> 14 then Some MODERATE
      else if 7 \<le> num \<and> num \<le> 11 then Some WEAK
      else if num \<le> 6 then Some VERY_WEAK
      else None)"

definition match_lower_or_upper :: "int \<Rightarrow> PasswordStrength option" where
  "match_lower_or_upper num =
     (if 18 \<le> num then Some STRONG
      else if 14 \<le> num \<and> num \<le> 17 then Some MODERATE
      else if 9 \<le> num \<and> num \<le> 13 then Some WEAK
      else if num \<le> 8 then Some VERY_WEAK
      else None)"

text \<open>
  \<open>PasswordStrength._check_password_strength\<close>: the \<open>if\<close>/\<open>elif\<close> chain picks one
  \<open>match\<close>; a \<open>match\<close> that returns nothing, and the case that no branch of the chain is
  taken, both reach the final \<open>return PasswordStrength.VERY_WEAK\<close>.
\<close>

definition check_password_strength ::
    "bool \<Rightarrow> bool \<Rightarrow> bool \<Rightarrow> bool \<Rightarrow> int \<Rightarrow> PasswordStrength" where
  "check_password_strength digit upper lower symbol len =
     (case (if digit \<and> upper \<and> lower \<and> symbol then match_all_four len
            else if digit \<and> upper \<and> lower then match_digit_upper_lower len
            else if upper \<and> lower then match_upper_lower len
            else if lower \<or> upper then match_lower_or_upper len
            else None) of
        Some r \<Rightarrow> r
      | None \<Rightarrow> VERY_WEAK)"

text \<open>
  The four local variables of \<open>PasswordStrength.strength\<close>, each an \<open>any\<close> over the
  characters of the password.
\<close>

definition digit_flag :: "chartab \<Rightarrow> pystr \<Rightarrow> bool" where
  "digit_flag ct password = any_py (map (\<lambda>character. isdigit ct character) password)"

definition upper_flag :: "chartab \<Rightarrow> pystr \<Rightarrow> bool" where
  "upper_flag ct password = any_py (map (\<lambda>character. isupper ct character) password)"

definition lower_flag :: "chartab \<Rightarrow> pystr \<Rightarrow> bool" where
  "lower_flag ct password = any_py (map (\<lambda>character. islower ct character) password)"

definition symbol_flag :: "chartab \<Rightarrow> pystr \<Rightarrow> bool" where
  "symbol_flag ct password = any_py (map (\<lambda>character. \<not> isalnum ct character) password)"

text \<open>\<open>PasswordStrength.strength\<close>.\<close>

definition strength :: "chartab \<Rightarrow> pystr \<Rightarrow> PasswordStrength" where
  "strength ct password =
     (let digit = digit_flag ct password;
          upper = upper_flag ct password;
          lower = lower_flag ct password;
          symbol = symbol_flag ct password
      in check_password_strength digit upper lower symbol (int (length password)))"

subsection \<open>The classification as the specification words it\<close>





text \<open>
  A password made only of digits and symbols: every character is a digit or fails the
  alphanumeric test.
\<close>

definition only_digits_symbols :: "chartab \<Rightarrow> pystr \<Rightarrow> bool" where
  "only_digits_symbols ct p = list_all (\<lambda>c. isdigit ct c \<or> \<not> isalnum ct c) p"

text \<open>The order of the categories, weakest first.\<close>

fun rank :: "PasswordStrength \<Rightarrow> nat" where
  "rank VERY_WEAK = 0"
| "rank WEAK = 1"
| "rank MODERATE = 2"
| "rank STRONG = 3"

section \<open>User configuration (class User of archinstall/lib/models/users.py)\<close>

text \<open>
  The values a loaded configuration holds at its leaves. Python does not check the
  annotations \<open>str\<close> and \<open>bool\<close> at run time, and \<open>User._parse\<close> tests a username for
  \<open>None\<close>, so a leaf is any scalar of a JSON document (floats left out).
\<close>

datatype pyval = PNone | PBool bool | PInt int | PStr string

text \<open>The truth value Python gives a scalar in \<open>if password:\<close>.\<close>

fun truthy :: "pyval \<Rightarrow> bool" where
  "truthy PNone = False"
| "truthy (PBool b) = b"
| "truthy (PInt i) = (i \<noteq> 0)"
| "truthy (PStr s) = (s \<noteq> [])"

text \<open>
  A Python \<open>dict\<close> with string keys keeps its items in insertion order, one item per
  key: it is the list of its items in that order.
\<close>

type_synonym 'v pydict = "(string \<times> 'v) list"

datatype py_error = KeyError string

text \<open>\<open>d.keys()\<close> as a list, \<open>d.get(key, default)\<close> and \<open>d[key]\<close>, which raises \<open>KeyError\<close>.\<close>

definition dict_keys :: "'v pydict \<Rightarrow> string list" where
  "dict_keys d = map fst d"

definition dict_get :: "'v pydict \<Rightarrow> string \<Rightarrow> 'v \<Rightarrow> 'v" where
  "dict_get d key dflt = (case map_of d key of None \<Rightarrow> dflt | Some v \<Rightarrow> v)"

definition dict_item :: "'v pydict \<Rightarrow> string \<Rightarrow> py_error + 'v" where
  "dict_item d key = (case map_of d key of None \<Rightarrow> Inl (KeyError key) | Some v \<Rightarrow> Inr v)"

text \<open>
  The dataclass \<open>User\<close>. Its constructor stores the three arguments as they are, so the
  fields hold whatever value the configuration had.
\<close>

record User =
  username :: pyval
  password :: pyval
  sudo :: pyval

text \<open>\<open>User.json\<close>.\<close>

definition json :: "User \<Rightarrow> pyval pydict" where
  "json self =
     [(''username'', username self), (''!password'', password self), (''sudo'', sudo self)]"

text \<open>
  The loop of \<open>User._parse\<close>, with the list \<open>users\<close> built so far as an argument, and
  \<open>User._parse\<close> itself, which starts the loop on the empty list.
\<close>

fun parse_loop :: "pyval pydict list \<Rightarrow> User list \<Rightarrow> User list" where
  "parse_loop [] users = users"
| "parse_loop (entry # rest) users =
     (let uname = dict_get entry ''username'' PNone;
          pw = dict_get entry ''!password'' (PStr []);
          sd = dict_get entry ''sudo'' (PBool False)
      in if uname = PNone then parse_loop rest users
         else parse_loop rest (users @ [\<lparr>username = uname, password = pw, sudo = sd\<rparr>]))"

definition parse :: "pyval pydict list \<Rightarrow> User list" where
  "parse config_users = parse_loop config_users []"

text \<open>\<open>User._parse_backwards_compatible\<close>.\<close>

definition parse_backwards_compatible ::
    "pyval pydict pydict \<Rightarrow> bool \<Rightarrow> py_error + User list" where
  "parse_backwards_compatible config_users sd =
     (if length (dict_keys config_users) > 0 then
        (let uname = dict_keys config_users ! 0 in
         case dict_item config_users uname of
           Inl e \<Rightarrow> Inl e
         | Inr sub \<Rightarrow>
             (case dict_item sub ''!password'' of
                Inl e \<Rightarrow> Inl e
              | Inr pw \<Rightarrow>
                  if truthy pw
                  then Inr [\<lparr>username = PStr uname, password = pw, sudo = PBool sd\<rparr>]
                  else Inr []))
      else Inr [])"

text \<open>
  The first argument of \<open>User.parse_arguments\<close> is a list of entries or a \<open>dict\<close>
  (\<open>isinstance(config_users, dict)\<close> tells them apart); the second is a \<open>dict\<close> or
  \<open>None\<close>.
\<close>

datatype users_input = CurrentShape "pyval pydict list" | LegacyShape "pyval pydict pydict"

text \<open>\<open>User.parse_arguments\<close>; an exception raised by a callee ends the call.\<close>

definition parse_arguments ::
    "users_input \<Rightarrow> pyval pydict pydict option \<Rightarrow> py_error + User list" where
  "parse_arguments config_users config_superusers =
     (case (case config_users of
              LegacyShape d \<Rightarrow> parse_backwards_compatible d False
            | CurrentShape es \<Rightarrow> Inr (parse es)) of
        Inl e \<Rightarrow> Inl e
      | Inr us \<Rightarrow>
          (let users = [] @ us in
           case config_superusers of
             Some d \<Rightarrow>
               (case parse_backwards_compatible d True of
                  Inl e \<Rightarrow> Inl e
                | Inr su \<Rightarrow> Inr (users @ su))
           | None \<Rightarrow> Inr users))"

subsection \<open>The parser as the specification words it\<close>

text \<open>
  An entry has a username when the key is present and its value is not null; the record
  of an entry takes the entry's values, the password defaulting to the empty string and
  the sudo flag to false when the key is absent.
\<close>

definition spec_has_username :: "pyval pydict \<Rightarrow> bool" where
  "spec_has_username e =
     (case map_of e ''username'' of None \<Rightarrow> False | Some v \<Rightarrow> v \<noteq> PNone)"

definition spec_entry_record :: "pyval pydict \<Rightarrow> User" where
  "spec_entry_record e =
     \<lparr> username = (case map_of e ''username'' of None \<Rightarrow> PNone | Some v \<Rightarrow> v),
       password = (case map_of e ''!password'' of None \<Rightarrow> PStr [] | Some v \<Rightarrow> v),
       sudo = (case map_of e ''sudo'' of None \<Rightarrow> PBool False | Some v \<Rightarrow> v) \<rparr>"

text \<open>
  The single-entry extraction of a legacy mapping: only the first item counts, and it
  gives a record when its password is not empty (not falsy).
\<close>

fun spec_legacy_records :: "pyval pydict pydict \<Rightarrow> bool \<Rightarrow> User list" where
  "spec_legacy_records [] admin = []"
| "spec_legacy_records ((name, sub) # others) admin =
     (case map_of sub ''!password'' of
        None \<Rightarrow> []
      | Some pw \<Rightarrow>
          if truthy pw then [\<lparr>username = PStr name, password = pw, sudo = PBool admin\<rparr>] else [])"

definition spec_users_records :: "users_input \<Rightarrow> User list" where
  "spec_users_records ui =
     (case ui of
        CurrentShape es \<Rightarrow> map spec_entry_record (filter spec_has_username es)
      | LegacyShape d \<Rightarrow> spec_legacy_records d False)"

definition spec_superusers_records :: "pyval pydict pydict option \<Rightarrow> User list" where
  "spec_superusers_records su = (case su of None \<Rightarrow> [] | Some d \<Rightarrow> spec_legacy_records d True)"

text \<open>
  Well-formed input: every sub-mapping of a legacy mapping contains the key
  \<open>!password\<close>. A sequence of entries has no further condition.
\<close>

definition wf_legacy :: "pyval pydict pydict \<Rightarrow> bool" where
  "wf_legacy d = list_all (\<lambda>sub. ''!password'' \<in> set (dict_keys sub)) (map snd d)"

fun wf_users :: "users_input \<Rightarrow> bool" where
  "wf_users (CurrentShape es) = True"
| "wf_users (LegacyShape d) = wf_legacy d"

fun wf_superusers :: "pyval pydict pydict option \<Rightarrow> bool" where
  "wf_superusers None = True"
| "wf_superusers (Some d) = wf_legacy d"

text \<open>
  The usernames an input gives are the non-null \<open>username\<close> values of its entries and
  the keys of a legacy mapping. The predicates below say that all of them are non-empty
  strings.
\<close>

fun nonempty_str :: "pyval \<Rightarrow> bool" where
  "nonempty_str (PStr s) = (s \<noteq> [])"
| "nonempty_str v = False"

definition entry_name_ok :: "pyval pydict \<Rightarrow> bool" where
  "entry_name_ok e =
     (case map_of e ''username'' of None \<Rightarrow> True | Some v \<Rightarrow> v = PNone \<or> nonempty_str v)"

definition legacy_names_ok :: "pyval pydict pydict \<Rightarrow> bool" where
  "legacy_names_ok d = list_all (\<lambda>name. name \<noteq> []) (dict_keys d)"

fun users_names_ok :: "users_input \<Rightarrow> bool" where
  "users_names_ok (CurrentShape es) = list_all entry_name_ok es"
| "users_names_ok (LegacyShape d) = legacy_names_ok d"

fun superusers_names_ok :: "pyval pydict pydict option \<Rightarrow> bool" where
  "superusers_names_ok None = True"
| "superusers_names_ok (Some d) = legacy_names_ok d"

section \<open>Theorems about the classifier\<close>

lemmas flag_defs = digit_flag_def upper_flag_def lower_flag_def symbol_flag_def

lemmas match_defs =
  match_all_four_def match_digit_upper_lower_def match_upper_lower_def match_lower_or_upper_def

lemma any_py_iff: "any_py bs \<longleftrightarrow> True \<in> set bs"
  by (induction bs) auto






lemma no_case_very_weak:
  "\<not> u \<Longrightarrow> \<not> l \<Longrightarrow> check_password_strength d u l s n = VERY_WEAK"
  by (simp add: check_password_strength_def)

text \<open>
  Claim C3, as stated: a password with no upper-case and no lower-case letter, such as
  one made only of digits and symbols, is classified very weak at any length. It fails:
  the tier is chosen by \<open>isupper\<close> and \<open>islower\<close>, which also hold of characters that
  are not letters. The circled capital letter U+24B6 is a symbol (it fails \<open>isalnum\<close>)
  and passes \<open>isupper\<close>, so the password made of eighteen of them consists of symbols
  only and is classified strong.
\<close>

theorem C3_counterexample:
  "only_digits_symbols circled_tab
     [9398, 9398, 9398, 9398, 9398, 9398, 9398, 9398, 9398,
      9398, 9398, 9398, 9398, 9398, 9398, 9398, 9398, 9398] \<and>
   strength circled_tab
     [9398, 9398, 9398, 9398, 9398, 9398, 9398, 9398, 9398,
      9398, 9398, 9398, 9398, 9398, 9398, 9398, 9398, 9398] = STRONG"
  by (simp add: only_digits_symbols_def circled_tab_def strength_def flag_defs
      check_password_strength_def match_defs)

text \<open>
  Claim C3, amended. A password none of whose characters passes \<open>isupper\<close> or
  \<open>islower\<close> is classified very weak, whatever its length and whatever digits and
  symbols it has; the empty password is one of them, and so is every password made only
  of digits and of symbols that the interpreter does not class as cased.
\<close>

theorem C3_no_letters:
  "\<forall>c \<in> set p. \<not> isupper ct c \<and> \<not> islower ct c \<Longrightarrow> strength ct p = VERY_WEAK"
  by (simp add: strength_def no_case_very_weak upper_flag_def lower_flag_def any_py_iff image_iff)

theorem C3_witness:
  "strength ascii_tab (ascii ''1234567890!@#$%^&*()1234567890'') = VERY_WEAK \<and>
   strength ascii_tab (ascii []) = VERY_WEAK"
  using C3_no_letters [of "ascii ''1234567890!@#$%^&*()1234567890''" ascii_tab]
    C3_no_letters [of "ascii []" ascii_tab]
  by (simp add: ascii_def ascii_tab_def)

text \<open>
  Claim C10. With the four flags fixed, the category is monotone in the length: a longer
  password is never ranked below a shorter one, in the order very weak, weak, moderate,
  strong.
\<close>

theorem C10_monotone:
  "l1 \<le> l2 \<Longrightarrow>
   rank (check_password_strength d u l s l1) \<le> rank (check_password_strength d u l s l2)"
  by (simp add: check_password_strength_def match_defs)

theorem C10_witness:
  "(9::int) \<le> 14 \<and>
   rank (check_password_strength False False True False 9) \<le>
   rank (check_password_strength False False True False 14) \<and>
   check_password_strength False False True False 9 = WEAK \<and>
   check_password_strength False False True False 14 = MODERATE"
  using C10_monotone [of 9 14 False False True False]
  by (simp add: check_password_strength_def match_defs)

section \<open>Theorems about the parser\<close>

lemma parse_loop_eq:
  "parse_loop es acc = acc @ map spec_entry_record (filter spec_has_username es)"
  by (induction es arbitrary: acc)
    (auto simp: dict_get_def spec_has_username_def spec_entry_record_def split: option.splits)

lemma parse_eq: "parse es = map spec_entry_record (filter spec_has_username es)"
  by (simp add: parse_def parse_loop_eq)

lemma parse_bc_Nil: "parse_backwards_compatible [] sd = Inr []"
  by (simp add: parse_backwards_compatible_def dict_keys_def)

lemma parse_bc_Cons:
  "parse_backwards_compatible ((name, sub) # others) sd =
     (case map_of sub ''!password'' of
        None \<Rightarrow> Inl (KeyError ''!password'')
      | Some pw \<Rightarrow>
          Inr (if truthy pw then [\<lparr>username = PStr name, password = pw, sudo = PBool sd\<rparr>]
               else []))"
  by (simp add: parse_backwards_compatible_def dict_keys_def dict_item_def split: option.splits)

lemma wf_legacy_Cons:
  "wf_legacy ((name, sub) # others) \<Longrightarrow> \<exists>pw. map_of sub ''!password'' = Some pw"
  by (auto simp: wf_legacy_def dict_keys_def dest!: weak_map_of_SomeI)

lemma parse_bc_wf:
  "wf_legacy d \<Longrightarrow> parse_backwards_compatible d sd = Inr (spec_legacy_records d sd)"
proof (cases d)
  case Nil
  then show ?thesis by (simp add: parse_bc_Nil)
next
  case (Cons item others)
  obtain name sub where item: "item = (name, sub)" by (cases item)
  assume "wf_legacy d"
  with Cons item obtain pw where "map_of sub ''!password'' = Some pw"
    using wf_legacy_Cons by blast
  with Cons item show ?thesis by (simp add: parse_bc_Cons)
qed

lemma parse_arguments_wf:
  "wf_users cu \<Longrightarrow> wf_superusers su \<Longrightarrow>
   parse_arguments cu su = Inr (spec_users_records cu @ spec_superusers_records su)"
  by (cases cu; cases su)
    (simp_all add: parse_arguments_def parse_eq parse_bc_wf spec_users_records_def
      spec_superusers_records_def)

lemma entry_names:
  "list_all entry_name_ok es \<Longrightarrow>
   list_all (\<lambda>r. nonempty_str (username r)) (map spec_entry_record (filter spec_has_username es))"
  by (induction es)
    (auto simp: entry_name_ok_def spec_has_username_def spec_entry_record_def split: option.splits)

lemma legacy_names:
  "legacy_names_ok d \<Longrightarrow> list_all (\<lambda>r. nonempty_str (username r)) (spec_legacy_records d sd)"
  by (cases "(d, sd)" rule: spec_legacy_records.cases)
    (auto simp: legacy_names_ok_def dict_keys_def split: option.splits)

lemma users_names:
  "users_names_ok cu \<Longrightarrow> list_all (\<lambda>r. nonempty_str (username r)) (spec_users_records cu)"
  by (cases cu) (simp_all add: spec_users_records_def entry_names legacy_names)

lemma superusers_names:
  "superusers_names_ok su \<Longrightarrow>
   list_all (\<lambda>r. nonempty_str (username r)) (spec_superusers_records su)"
  by (cases su) (simp_all add: spec_superusers_records_def legacy_names)

text \<open>
  Claim C4. On a sequence of entries the parser raises nothing, drops every entry whose
  \<open>username\<close> key is absent or null, and gives one record for each other entry, in the
  order of the input: the entry's username, its \<open>!password\<close> value or the empty string
  when the key is absent, and its \<open>sudo\<close> value or false when the key is absent.
\<close>

theorem C4_current_shape:
  "parse es = map spec_entry_record (filter spec_has_username es) \<and>
   parse_arguments (CurrentShape es) None =
     Inr (map spec_entry_record (filter spec_has_username es))"
  by (simp add: parse_arguments_def parse_eq)

theorem C4_witness:
  "parse_arguments
     (CurrentShape [[(''username'', PStr ''ada''), (''!password'', PStr ''x''), (''sudo'', PBool True)],
                    [(''!password'', PStr ''x'')],
                    [(''username'', PNone), (''sudo'', PBool True)],
                    [(''username'', PStr ''bob'')]]) None =
   Inr [\<lparr>username = PStr ''ada'', password = PStr ''x'', sudo = PBool True\<rparr>,
        \<lparr>username = PStr ''bob'', password = PStr [], sudo = PBool False\<rparr>]"
  using C4_current_shape [of "[[(''username'', PStr ''ada''), (''!password'', PStr ''x''), (''sudo'', PBool True)],
                    [(''!password'', PStr ''x'')],
                    [(''username'', PNone), (''sudo'', PBool True)],
                    [(''username'', PStr ''bob'')]]"]
  by (simp add: spec_has_username_def spec_entry_record_def)

text \<open>
  Claim C5. On a legacy mapping the parser looks at the first key only: the result is the
  same whatever items follow the first. When the first item's password is falsy (empty)
  there is no record; otherwise there is exactly one, with the first key as username and
  the sudo flag false. The sub-mapping of the first key has the key \<open>!password\<close>, as the
  legacy shape requires.
\<close>

theorem C5_legacy_first_key:
  assumes "map_of sub ''!password'' = Some pw"
  shows "parse_arguments (LegacyShape ((name, sub) # others)) None =
           Inr (if truthy pw then [\<lparr>username = PStr name, password = pw, sudo = PBool False\<rparr>]
                else []) \<and>
         parse_arguments (LegacyShape ((name, sub) # others)) su =
           parse_arguments (LegacyShape [(name, sub)]) su"
  using assms by (simp add: parse_arguments_def parse_bc_Cons)

theorem C5_witness:
  "parse_arguments (LegacyShape [(''root'', [(''!password'', PStr ''pw'')]),
                                 (''eve'', [(''!password'', PStr ''x'')])]) None =
     Inr [\<lparr>username = PStr ''root'', password = PStr ''pw'', sudo = PBool False\<rparr>] \<and>
   parse_arguments (LegacyShape [(''root'', [(''!password'', PStr [])]),
                                 (''eve'', [(''!password'', PStr ''x'')])]) None = Inr []"
  using C5_legacy_first_key [of "[(''!password'', PStr ''pw'')]" "PStr ''pw''" "''root''"
      "[(''eve'', [(''!password'', PStr ''x'')])]" None]
    C5_legacy_first_key [of "[(''!password'', PStr [])]" "PStr []" "''root''"
      "[(''eve'', [(''!password'', PStr ''x'')])]" None]
  by simp

text \<open>
  Claim C6. For a well-formed first argument, the output is the records of the users
  input, followed by the record of the superusers input if there is one. Nothing is
  appended when the superusers input is \<open>None\<close>, when it is the empty mapping, and when
  the password of its first item is falsy (empty); otherwise exactly one record is
  appended, made of the first key and its password, with the sudo flag true.
\<close>

theorem C6_merge:
  assumes "wf_users cu"
  shows "parse_arguments cu None = Inr (spec_users_records cu) \<and>
         parse_arguments cu (Some []) = Inr (spec_users_records cu) \<and>
         (map_of sub ''!password'' = Some pw \<longrightarrow>
            parse_arguments cu (Some ((name, sub) # others)) =
              Inr (spec_users_records cu @
                   (if truthy pw
                    then [\<lparr>username = PStr name, password = pw, sudo = PBool True\<rparr>]
                    else [])))"
  using assms
  by (cases cu) (simp_all add: parse_arguments_def parse_eq parse_bc_Nil parse_bc_Cons
      parse_bc_wf spec_users_records_def)

theorem C6_witness:
  "wf_users (LegacyShape [(''root'', [(''!password'', PStr ''pw'')])]) \<and>
   parse_arguments (LegacyShape [(''root'', [(''!password'', PStr ''pw'')])])
       (Some [(''admin'', [(''!password'', PStr ''pw2'')]), (''eve'', [])]) =
     Inr [\<lparr>username = PStr ''root'', password = PStr ''pw'', sudo = PBool False\<rparr>,
          \<lparr>username = PStr ''admin'', password = PStr ''pw2'', sudo = PBool True\<rparr>] \<and>
   parse_arguments (LegacyShape [(''root'', [(''!password'', PStr ''pw'')])]) None =
     Inr [\<lparr>username = PStr ''root'', password = PStr ''pw'', sudo = PBool False\<rparr>]"
  using C6_merge [of "LegacyShape [(''root'', [(''!password'', PStr ''pw'')])]"
      "[(''!password'', PStr ''pw2'')]" "PStr ''pw2''" "''admin''" "[(''eve'', [])]"]
  by (simp add: wf_legacy_def dict_keys_def spec_users_records_def)

text \<open>
  Claim C7. \<open>json\<close> has no failing step and gives the mapping with the keys \<open>username\<close>,
  \<open>!password\<close> and \<open>sudo\<close>; parsing the one-entry sequence made of it, with the empty
  mapping as superusers input, gives back the record alone. The username of a record is
  a string, so it is not \<open>None\<close>: that is all the round trip needs.
\<close>

theorem C7_round_trip:
  assumes "username r \<noteq> PNone"
  shows "dict_keys (json r) = [''username'', ''!password'', ''sudo''] \<and>
         parse_arguments (CurrentShape [json r]) (Some []) = Inr [r]"
  using assms
  by (simp add: parse_arguments_def parse_def json_def dict_keys_def dict_get_def parse_bc_Nil)

theorem C7_witness:
  "username \<lparr>username = PStr ''ada'', password = PStr ''x'', sudo = PBool True\<rparr> \<noteq> PNone \<and>
   parse_arguments
     (CurrentShape [json \<lparr>username = PStr ''ada'', password = PStr ''x'', sudo = PBool True\<rparr>])
     (Some []) =
   Inr [\<lparr>username = PStr ''ada'', password = PStr ''x'', sudo = PBool True\<rparr>]"
  using C7_round_trip [of "\<lparr>username = PStr ''ada'', password = PStr ''x'', sudo = PBool True\<rparr>"]
  by simp

text \<open>
  Claim C8, as stated: every record in the output of the parser has a non-empty
  username. It fails: the parser only tests the username for \<open>None\<close>, and the entry
  whose username is the empty string gives a record with the empty username.
\<close>

theorem C8_counterexample:
  "wf_users (CurrentShape [[(''username'', PStr [])]]) \<and> wf_superusers None \<and>
   parse_arguments (CurrentShape [[(''username'', PStr [])]]) None =
     Inr [\<lparr>username = PStr [], password = PStr [], sudo = PBool False\<rparr>] \<and>
   \<not> nonempty_str (username \<lparr>username = PStr [], password = PStr [], sudo = PBool False\<rparr>)"
  by (simp add: parse_arguments_def parse_def dict_get_def Let_def)

text \<open>
  Claim C8, amended. For a well-formed input in which every username given (the
  \<open>username\<close> value of an entry when it is present and not null, and the keys of the
  legacy mappings) is a non-empty string, the parser returns, and every record of its
  output has a non-empty string as username.
\<close>

theorem C8_usernames_nonempty:
  assumes "wf_users cu" and "wf_superusers su"
    and "users_names_ok cu" and "superusers_names_ok su"
  shows "\<exists>us. parse_arguments cu su = Inr us \<and> list_all (\<lambda>r. nonempty_str (username r)) us"
  using assms by (simp add: parse_arguments_wf users_names superusers_names)

theorem C8_witness:
  "wf_users (CurrentShape [[(''username'', PStr ''ada'')], [(''sudo'', PBool True)]]) \<and>
   wf_superusers (Some [(''admin'', [(''!password'', PStr ''pw'')])]) \<and>
   users_names_ok (CurrentShape [[(''username'', PStr ''ada'')], [(''sudo'', PBool True)]]) \<and>
   superusers_names_ok (Some [(''admin'', [(''!password'', PStr ''pw'')])]) \<and>
   (\<exists>us. parse_arguments (CurrentShape [[(''username'', PStr ''ada'')], [(''sudo'', PBool True)]])
            (Some [(''admin'', [(''!password'', PStr ''pw'')])]) = Inr us \<and>
         list_all (\<lambda>r. nonempty_str (username r)) us)"
  using C8_usernames_nonempty [of "CurrentShape [[(''username'', PStr ''ada'')], [(''sudo'', PBool True)]]"
      "Some [(''admin'', [(''!password'', PStr ''pw'')])]"]
  by (simp add: wf_legacy_def dict_keys_def entry_name_ok_def legacy_names_ok_def)

text \<open>
  Claim C9. \<open>strength\<close> has no raising step (it iterates a string, calls the four
  character tests and compares integers), so for every string, the empty one and
  strings of any length included, it returns one of the four categories. The parser can
  raise only \<open>KeyError\<close>, from \<open>config_users[username]['!password']\<close>; on a well-formed
  input (a sequence of entries or a legacy mapping whose sub-mappings have the key
  \<open>!password\<close>, and a superusers input that is \<open>None\<close> or such a legacy mapping) it
  returns a list of records.
\<close>

theorem C9_no_exception:
  "strength ct p \<in> {VERY_WEAK, WEAK, MODERATE, STRONG} \<and>
   (wf_users cu \<and> wf_superusers su \<longrightarrow> (\<exists>us. parse_arguments cu su = Inr us))"
proof -
  have "strength ct p \<in> {VERY_WEAK, WEAK, MODERATE, STRONG}"
    by (cases "strength ct p") simp_all
  moreover have "\<exists>us. parse_arguments cu su = Inr us" if "wf_users cu" "wf_superusers su"
    using that by (simp add: parse_arguments_wf)
  ultimately show ?thesis by blast
qed

theorem C9_witness:
  "wf_users (LegacyShape [(''root'', [(''!password'', PStr ''pw'')])]) \<and>
   wf_superusers (Some [(''admin'', [(''!password'', PStr [])])]) \<and>
   (\<exists>us. parse_arguments (LegacyShape [(''root'', [(''!password'', PStr ''pw'')])])
            (Some [(''admin'', [(''!password'', PStr [])])]) = Inr us)"
  using C9_no_exception [of ascii_tab "[]" "LegacyShape [(''root'', [(''!password'', PStr ''pw'')])]"
      "Some [(''admin'', [(''!password'', PStr [])])]"]
  by (simp add: wf_legacy_def dict_keys_def)

end
